theory Spec2Isabelle
  imports Complex_Main
begin

section \<open>Python values\<close>

text \<open>
  The service works on what \<^verbatim>\<open>response.json()\<close> returns and on the dictionaries it
  builds from it. A dictionary is an association list in insertion order; a real Python
  dictionary never holds two equal keys (\<open>dict_ok\<close> below). A \<open>char\<close> stands for one
  character of a Python \<^verbatim>\<open>str\<close>. The non-finite floats that Python's JSON reader also
  accepts are left out.
\<close>

datatype pyval =
    PNone
  | PBool bool
  | PInt int
  | PFloat real
  | PStr string
  | PList "pyval list"
  | PDict "(pyval \<times> pyval) list"

type_synonym pydict = "(pyval \<times> pyval) list"

text \<open>The exceptions that the modelled code and its library calls raise.\<close>

datatype error =
    KeyError pyval
  | TypeError
  | AttributeError string
  | ValueError
  | HTTPError nat
  | ConnectionError
  | Timeout
  | JSONDecodeError

text \<open>Python compares \<^verbatim>\<open>True\<close>, \<^verbatim>\<open>1\<close> and \<^verbatim>\<open>1.0\<close> as equal, also as dictionary keys.\<close>

fun num_val :: "pyval \<Rightarrow> real option" where
  "num_val (PBool b) = Some (if b then 1 else 0)"
| "num_val (PInt i) = Some (real_of_int i)"
| "num_val (PFloat r) = Some r"
| "num_val _ = None"

definition key_eq :: "pyval \<Rightarrow> pyval \<Rightarrow> bool" where
  "key_eq a b = (case num_val a of Some x \<Rightarrow> num_val b = Some x | None \<Rightarrow> num_val b = None \<and> a = b)"

fun hashable :: "pyval \<Rightarrow> bool" where
  "hashable (PList _) = False"
| "hashable (PDict _) = False"
| "hashable _ = True"

fun dict_lookup :: "pydict \<Rightarrow> pyval \<Rightarrow> pyval option" where
  "dict_lookup [] k = None"
| "dict_lookup ((k', v) # d) k = (if key_eq k' k then Some v else dict_lookup d k)"

text \<open>\<^verbatim>\<open>d[k] = v\<close>: an equal key keeps its place and its key object, a new key goes last.\<close>

fun dict_set :: "pydict \<Rightarrow> pyval \<Rightarrow> pyval \<Rightarrow> pydict" where
  "dict_set [] k v = [(k, v)]"
| "dict_set ((k', v') # d) k v =
     (if key_eq k' k then (k', v) # d else (k', v') # dict_set d k v)"

fun dict_ok :: "pydict \<Rightarrow> bool" where
  "dict_ok [] = True"
| "dict_ok ((k, v) # d) = (dict_lookup d k = None \<and> dict_ok d)"

text \<open>\<^verbatim>\<open>obj[name]\<close> with a string subscript.\<close>

fun getitem :: "pyval \<Rightarrow> string \<Rightarrow> error + pyval" where
  "getitem (PDict d) name =
     (case dict_lookup d (PStr name) of None \<Rightarrow> Inl (KeyError (PStr name)) | Some v \<Rightarrow> Inr v)"
| "getitem _ name = Inl TypeError"

text \<open>\<^verbatim>\<open>obj.get(name, default)\<close>: only a dictionary has the method.\<close>

fun py_get :: "pyval \<Rightarrow> string \<Rightarrow> pyval \<Rightarrow> error + pyval" where
  "py_get (PDict d) name dflt =
     (case dict_lookup d (PStr name) of None \<Rightarrow> Inr dflt | Some v \<Rightarrow> Inr v)"
| "py_get _ name dflt = Inl (AttributeError ''get'')"

text \<open>Iterating over a value, as \<^verbatim>\<open>dict.update\<close> does with each element of a sequence argument.\<close>

fun iterate :: "pyval \<Rightarrow> pyval list option" where
  "iterate (PList xs) = Some xs"
| "iterate (PStr s) = Some (map (\<lambda>c. PStr [c]) s)"
| "iterate (PDict d) = Some (map fst d)"
| "iterate _ = None"

definition update_from_dict :: "pydict \<Rightarrow> pydict \<Rightarrow> pydict" where
  "update_from_dict d other = foldl (\<lambda>acc (k, v). dict_set acc k v) d other"

fun update_from_seq :: "pydict \<Rightarrow> pyval list \<Rightarrow> error + pydict" where
  "update_from_seq d [] = Inr d"
| "update_from_seq d (x # xs) =
     (case iterate x of
        None \<Rightarrow> Inl TypeError
      | Some [k, v] \<Rightarrow> (if hashable k then update_from_seq (dict_set d k v) xs else Inl TypeError)
      | Some _ \<Rightarrow> Inl ValueError)"

text \<open>
  \<^verbatim>\<open>obj.update(other)\<close>: a dictionary argument is merged key by key, any other iterable
  is read as a sequence of pairs.
\<close>

fun py_update :: "pyval \<Rightarrow> pyval \<Rightarrow> error + pydict" where
  "py_update (PDict d) (PDict other) = Inr (update_from_dict d other)"
| "py_update (PDict d) other =
     (case iterate other of None \<Rightarrow> Inl TypeError | Some xs \<Rightarrow> update_from_seq d xs)"
| "py_update _ other = Inl (AttributeError ''update'')"

text \<open>\<^verbatim>\<open>key in names\<close> for a list of strings.\<close>

definition py_in :: "pyval \<Rightarrow> string list \<Rightarrow> bool" where
  "py_in key names = list_ex (\<lambda>n. key_eq key (PStr n)) names"

section \<open>The generic mappings (common/mappings.py)\<close>

datatype GenericSewerMappings =
    G_septic | G_municipal | G_storm | G_type_unknown | G_existence_unknown | G_no_sewer

fun GenericSewerMappings_value :: "GenericSewerMappings \<Rightarrow> string" where
  "GenericSewerMappings_value G_septic = ''septic''"
| "GenericSewerMappings_value G_municipal = ''municipal''"
| "GenericSewerMappings_value G_storm = ''storm''"
| "GenericSewerMappings_value G_type_unknown = ''type_unknown''"
| "GenericSewerMappings_value G_existence_unknown = ''existence_unknown''"
| "GenericSewerMappings_value G_no_sewer = ''no_sewer''"

datatype GenericFieldsToMappings = GF_sewer

fun GenericFieldsToMappings_name :: "GenericFieldsToMappings \<Rightarrow> string" where
  "GenericFieldsToMappings_name GF_sewer = ''sewer''"

section \<open>The House Canary vocabulary (services/home_data_svc/base.py)\<close>

datatype HouseCanarySewerPropertyDetails =
    HC_municipal | HC_septic | HC_storm | HC_none | HC_Yes

fun HouseCanarySewerPropertyDetails_value :: "HouseCanarySewerPropertyDetails \<Rightarrow> string" where
  "HouseCanarySewerPropertyDetails_value HC_municipal = ''Municipal''"
| "HouseCanarySewerPropertyDetails_value HC_septic = ''Septic''"
| "HouseCanarySewerPropertyDetails_value HC_storm = ''Storm''"
| "HouseCanarySewerPropertyDetails_value HC_none = ''None''"
| "HouseCanarySewerPropertyDetails_value HC_Yes = ''Yes''"

definition HouseCanarySewerPropertyDetails_members :: "HouseCanarySewerPropertyDetails list" where
  "HouseCanarySewerPropertyDetails_members = [HC_municipal, HC_septic, HC_storm, HC_none, HC_Yes]"

text \<open>
  Calling the enum class with a value, \<^verbatim>\<open>HouseCanarySewerPropertyDetails(value)\<close>, returns
  the member that has this value and raises \<^verbatim>\<open>ValueError\<close> when there is none.
\<close>

definition HouseCanarySewerPropertyDetails_call ::
    "pyval \<Rightarrow> error + HouseCanarySewerPropertyDetails" where
  "HouseCanarySewerPropertyDetails_call v =
     (case v of
        PStr s \<Rightarrow>
          (case find (\<lambda>m. HouseCanarySewerPropertyDetails_value m = s)
                  HouseCanarySewerPropertyDetails_members of
             None \<Rightarrow> Inl ValueError
           | Some m \<Rightarrow> Inr m)
      | _ \<Rightarrow> Inl ValueError)"

datatype HouseCanaryFields = HCF_sewer

fun HouseCanaryFields_name :: "HouseCanaryFields \<Rightarrow> string" where
  "HouseCanaryFields_name HCF_sewer = ''sewer''"

text \<open>The value of a field member is the enum class of the field's values, used as validator.\<close>

fun HouseCanaryFields_value ::
    "HouseCanaryFields \<Rightarrow> pyval \<Rightarrow> error + HouseCanarySewerPropertyDetails" where
  "HouseCanaryFields_value HCF_sewer = HouseCanarySewerPropertyDetails_call"

text \<open>\<^verbatim>\<open>HouseCanaryFields[field_name]\<close>: the member of that name, or \<^verbatim>\<open>KeyError\<close>.\<close>

definition HouseCanaryFields_getitem :: "pyval \<Rightarrow> error + HouseCanaryFields" where
  "HouseCanaryFields_getitem field_name =
     (if \<not> hashable field_name then Inl TypeError
      else if key_eq field_name (PStr (HouseCanaryFields_name HCF_sewer)) then Inr HCF_sewer
      else Inl (KeyError field_name))"

definition house_canary_field_to_generic :: "(string \<times> GenericFieldsToMappings) list" where
  "house_canary_field_to_generic = [(HouseCanaryFields_name HCF_sewer, GF_sewer)]"

text \<open>\<^verbatim>\<open>house_canary_field_to_generic[field_name]\<close>.\<close>

definition house_canary_field_to_generic_getitem :: "pyval \<Rightarrow> error + GenericFieldsToMappings" where
  "house_canary_field_to_generic_getitem field_name =
     (if \<not> hashable field_name then Inl TypeError
      else case find (\<lambda>(n, g). key_eq field_name (PStr n)) house_canary_field_to_generic of
             None \<Rightarrow> Inl (KeyError field_name)
           | Some (n, g) \<Rightarrow> Inr g)"

definition house_canary_sewer_to_generic :: "(string \<times> string) list" where
  "house_canary_sewer_to_generic =
     [(HouseCanarySewerPropertyDetails_value HC_municipal, GenericSewerMappings_value G_municipal),
      (HouseCanarySewerPropertyDetails_value HC_septic, GenericSewerMappings_value G_septic),
      (HouseCanarySewerPropertyDetails_value HC_storm, GenericSewerMappings_value G_storm),
      (HouseCanarySewerPropertyDetails_value HC_none, GenericSewerMappings_value G_no_sewer),
      (HouseCanarySewerPropertyDetails_value HC_Yes, GenericSewerMappings_value G_type_unknown)]"

text \<open>\<^verbatim>\<open>house_canary_sewer_to_generic.get(value, default)\<close>.\<close>

definition house_canary_sewer_to_generic_get :: "pyval \<Rightarrow> string \<Rightarrow> error + string" where
  "house_canary_sewer_to_generic_get v dflt =
     (if \<not> hashable v then Inl TypeError
      else case find (\<lambda>(p, g). key_eq v (PStr p)) house_canary_sewer_to_generic of
             None \<Rightarrow> Inr dflt
           | Some (p, g) \<Rightarrow> Inr g)"

section \<open>The service\<close>

record HomeDataSvc =
  expected_fields :: "string list"
  address :: "string option"
  zip_code :: "string option"
  data :: "pydict option"

definition constructed_fields :: "string list" where
  "constructed_fields = [''has_septic'']"

definition fields_to_retrieve :: "string list" where
  "fields_to_retrieve = [HouseCanaryFields_name HCF_sewer]"

subsection \<open>Fetching\<close>

text \<open>
  \<^verbatim>\<open>requests.get\<close> is the program's environment: for the two query parameters it either
  raises or returns a response, which has a status code and a body that is JSON or not.
\<close>

datatype response = Response (status_code: nat) (json_body: "pyval option")

datatype get_outcome = Raises error | Returns response

type_synonym requests_get = "string option \<Rightarrow> string option \<Rightarrow> get_outcome"

definition raise_for_status :: "response \<Rightarrow> error + unit" where
  "raise_for_status r =
     (if 400 \<le> status_code r \<and> status_code r < 600 then Inl (HTTPError (status_code r)) else Inr ())"

definition response_json :: "response \<Rightarrow> error + pyval" where
  "response_json r = (case json_body r of None \<Rightarrow> Inl JSONDecodeError | Some j \<Rightarrow> Inr j)"

definition fetch_home_data :: "HomeDataSvc \<Rightarrow> requests_get \<Rightarrow> error + pyval" where
  "fetch_home_data self get =
     (case get (address self) (zip_code self) of
        Raises e \<Rightarrow> Inl e
      | Returns r \<Rightarrow>
          (case raise_for_status r of
             Inl e \<Rightarrow> Inl e
           | Inr _ \<Rightarrow> response_json r))"

definition save_to_file :: "HomeDataSvc \<Rightarrow> pyval \<Rightarrow> unit" where
  "save_to_file self fetched_data = ()"

subsection \<open>Parsing\<close>

text \<open>
  \<^verbatim>\<open>update\<close> changes the payload's \<^verbatim>\<open>property\<close> object in place; the payload is not
  read again, so the model keeps only the updated dictionary.
\<close>

definition parse_home_data :: "HomeDataSvc \<Rightarrow> pyval \<Rightarrow> error + pydict" where
  "parse_home_data self home_data =
     (case getitem home_data ''property/details'' of
        Inl e \<Rightarrow> Inl e
      | Inr details \<Rightarrow>
     (case getitem details ''result'' of
        Inl e \<Rightarrow> Inl e
      | Inr result \<Rightarrow>
     (case py_get result ''property'' (PDict []) of
        Inl e \<Rightarrow> Inl e
      | Inr property_data \<Rightarrow>
     (case py_get result ''assessment'' (PDict []) of
        Inl e \<Rightarrow> Inl e
      | Inr property_assessment \<Rightarrow>
     (case py_update property_data property_assessment of
        Inl e \<Rightarrow> Inl e
      | Inr merged \<Rightarrow>
          Inr (filter (\<lambda>(key, val). py_in key fields_to_retrieve) merged))))))"

subsection \<open>Normalizing\<close>

fun normalize_items :: "pydict \<Rightarrow> pydict \<Rightarrow> error + pydict" where
  "normalize_items normalized_home_data [] = Inr normalized_home_data"
| "normalize_items normalized_home_data ((field_name, val) # items) =
     (case HouseCanaryFields_getitem field_name of
        Inl e \<Rightarrow> Inl e
      | Inr field \<Rightarrow>
     (case HouseCanaryFields_value field val of
        Inl e \<Rightarrow> Inl e
      | Inr _ \<Rightarrow>
     (case house_canary_field_to_generic_getitem field_name of
        Inl e \<Rightarrow> Inl e
      | Inr normalized_field \<Rightarrow>
     (case house_canary_sewer_to_generic_get val (GenericSewerMappings_value G_existence_unknown) of
        Inl e \<Rightarrow> Inl e
      | Inr normalized_field_value \<Rightarrow>
          normalize_items
            (dict_set normalized_home_data
               (PStr (GenericFieldsToMappings_name normalized_field))
               (PStr normalized_field_value))
            items))))"

definition normalize_home_data :: "pydict \<Rightarrow> error + pydict" where
  "normalize_home_data home_data = normalize_items [] home_data"

subsection \<open>Constructed fields\<close>

definition has_septic :: "pydict \<Rightarrow> error + pyval" where
  "has_septic data_arg =
     (let sewer_key = GenericFieldsToMappings_name GF_sewer in
      case dict_lookup data_arg (PStr sewer_key) of
        None \<Rightarrow> Inl (KeyError (PStr sewer_key))
      | Some v \<Rightarrow> Inr (PBool (v = PStr (GenericSewerMappings_value G_septic))))"

text \<open>
  \<^verbatim>\<open>getattr(self, constructed_field)\<close>: of the names in \<open>constructed_fields\<close>, the class
  defines the method \<^verbatim>\<open>has_septic\<close>.
\<close>

definition getattr_constructor :: "string \<Rightarrow> error + (pydict \<Rightarrow> error + pyval)" where
  "getattr_constructor name =
     (if name = ''has_septic'' then Inr has_septic else Inl (AttributeError name))"

fun is_AttributeError :: "error \<Rightarrow> bool" where
  "is_AttributeError (AttributeError _) = True"
| "is_AttributeError _ = False"

text \<open>The loop body runs under \<^verbatim>\<open>try\<close>; only \<^verbatim>\<open>AttributeError\<close> is caught.\<close>

fun construct_fields :: "string list \<Rightarrow> pydict \<Rightarrow> error + pydict" where
  "construct_fields [] normalized_data = Inr normalized_data"
| "construct_fields (constructed_field # rest) normalized_data =
     (case (case getattr_constructor constructed_field of
              Inl e \<Rightarrow> Inl e
            | Inr field_constructor \<Rightarrow>
                (case field_constructor normalized_data of
                   Inl e \<Rightarrow> Inl e
                 | Inr v \<Rightarrow> Inr (dict_set normalized_data (PStr constructed_field) v))) of
        Inl e \<Rightarrow> (if is_AttributeError e then construct_fields rest normalized_data else Inl e)
      | Inr normalized_data' \<Rightarrow> construct_fields rest normalized_data')"

definition build_constructed_fields :: "pydict \<Rightarrow> error + pydict" where
  "build_constructed_fields normalized_data = construct_fields constructed_fields normalized_data"

subsection \<open>The pipeline\<close>

text \<open>
  \<^verbatim>\<open>build_home_data\<close> returns the pruned data and stores it on the instance; when a stage
  raises, nothing is stored.
\<close>

definition build_home_data :: "HomeDataSvc \<Rightarrow> requests_get \<Rightarrow> (error + pydict) \<times> HomeDataSvc" where
  "build_home_data self get =
     (case fetch_home_data self get of
        Inl e \<Rightarrow> (Inl e, self)
      | Inr fetched_data \<Rightarrow>
     (let saved = save_to_file self fetched_data in
     (case parse_home_data self fetched_data of
        Inl e \<Rightarrow> (Inl e, self)
      | Inr parsed_data \<Rightarrow>
     (case normalize_home_data parsed_data of
        Inl e \<Rightarrow> (Inl e, self)
      | Inr normalized_data \<Rightarrow>
     (case build_constructed_fields normalized_data of
        Inl e \<Rightarrow> (Inl e, self)
      | Inr data_with_constructed_fields \<Rightarrow>
          (let pruned_data =
                 filter (\<lambda>(key, val). py_in key (expected_fields self)) data_with_constructed_fields
           in (Inr pruned_data, self\<lparr>data := Some pruned_data\<rparr>)))))))"

section \<open>Payload shapes\<close>

text \<open>
  The two kinds of payload that the specification of parsing tells apart, written from its
  words. The structural container is the \<^verbatim>\<open>property/details\<close> object with its
  \<^verbatim>\<open>result\<close> member; a payload misses it when it is no object, has no
  \<^verbatim>\<open>property/details\<close> member, that member is no object, or it has no \<^verbatim>\<open>result\<close>
  member. A payload is well formed when the \<^verbatim>\<open>result\<close> member is an object whose
  \<^verbatim>\<open>property\<close> and \<^verbatim>\<open>assessment\<close> members, where present, are objects; any further
  members, at any level, are unexpected content.
\<close>

definition missing_container :: "pyval \<Rightarrow> bool" where
  "missing_container home_data =
     (case home_data of
        PDict outer \<Rightarrow>
          (case dict_lookup outer (PStr ''property/details'') of
             Some (PDict details) \<Rightarrow> dict_lookup details (PStr ''result'') = None
           | _ \<Rightarrow> True)
      | _ \<Rightarrow> True)"

fun object_or_absent :: "pyval option \<Rightarrow> bool" where
  "object_or_absent None = True"
| "object_or_absent (Some (PDict d)) = True"
| "object_or_absent (Some _) = False"

definition well_formed_payload :: "pyval \<Rightarrow> bool" where
  "well_formed_payload home_data =
     (case home_data of
        PDict outer \<Rightarrow>
          (case dict_lookup outer (PStr ''property/details'') of
             Some (PDict details) \<Rightarrow>
               (case dict_lookup details (PStr ''result'') of
                  Some (PDict result) \<Rightarrow>
                    object_or_absent (dict_lookup result (PStr ''property'')) \<and>
                    object_or_absent (dict_lookup result (PStr ''assessment''))
                | _ \<Rightarrow> False)
           | _ \<Rightarrow> False)
      | _ \<Rightarrow> False)"

section \<open>Properties\<close>

subsection \<open>Keys and tables\<close>

lemma key_eq_PStr_right [simp]: "key_eq k (PStr s) \<longleftrightarrow> k = PStr s"
  by (cases k) (auto simp: key_eq_def)

lemma key_eq_PStr_left [simp]: "key_eq (PStr s) k \<longleftrightarrow> k = PStr s"
  by (cases k) (auto simp: key_eq_def)

lemma py_in_iff: "py_in k names \<longleftrightarrow> k \<in> PStr ` set names"
  by (auto simp: py_in_def list_ex_iff)

lemma call_member: "HouseCanarySewerPropertyDetails_call (PStr (HouseCanarySewerPropertyDetails_value m)) = Inr m"
  by (cases m) (simp_all add: HouseCanarySewerPropertyDetails_call_def HouseCanarySewerPropertyDetails_members_def)

lemma call_Inr_iff:
  "HouseCanarySewerPropertyDetails_call v = Inr m \<longleftrightarrow> v = PStr (HouseCanarySewerPropertyDetails_value m)"
proof
  assume "HouseCanarySewerPropertyDetails_call v = Inr m"
  then show "v = PStr (HouseCanarySewerPropertyDetails_value m)"
    by (auto simp: HouseCanarySewerPropertyDetails_call_def split: pyval.splits option.splits dest: find_Some_iff[THEN iffD1])
next
  assume "v = PStr (HouseCanarySewerPropertyDetails_value m)"
  then show "HouseCanarySewerPropertyDetails_call v = Inr m" by (simp add: call_member)
qed

lemma call_cases: "HouseCanarySewerPropertyDetails_call v = Inl ValueError \<or> (\<exists>m. HouseCanarySewerPropertyDetails_call v = Inr m)"
  by (auto simp: HouseCanarySewerPropertyDetails_call_def split: pyval.splits option.splits)

lemma call_outside:
  "v \<notin> PStr ` set (map HouseCanarySewerPropertyDetails_value HouseCanarySewerPropertyDetails_members)
   \<Longrightarrow> HouseCanarySewerPropertyDetails_call v = Inl ValueError"
  using call_cases[of v] 
  apply (auto simp: call_Inr_iff HouseCanarySewerPropertyDetails_members_def)
  subgoal for m by (cases m) auto
  done

lemma table_get_str:
  "house_canary_sewer_to_generic_get (PStr s) dflt =
     Inr (case map_of house_canary_sewer_to_generic s of None \<Rightarrow> dflt | Some c \<Rightarrow> c)"
  by (simp add: house_canary_sewer_to_generic_get_def house_canary_sewer_to_generic_def)

lemma table_dom:
  "map_of house_canary_sewer_to_generic s = Some c \<Longrightarrow> \<exists>m. s = HouseCanarySewerPropertyDetails_value m"
  apply (simp add: house_canary_sewer_to_generic_def split: if_splits)
  apply (metis HouseCanarySewerPropertyDetails_value.simps)+
  done

lemma table_total:
  "\<exists>c. map_of house_canary_sewer_to_generic (HouseCanarySewerPropertyDetails_value m) = Some c"
  by (cases m) (simp_all add: house_canary_sewer_to_generic_def)

lemma field_getitem_sewer [simp]: "HouseCanaryFields_getitem (PStr ''sewer'') = Inr HCF_sewer"
  by (simp add: HouseCanaryFields_getitem_def)

lemma generic_getitem_sewer [simp]: "house_canary_field_to_generic_getitem (PStr ''sewer'') = Inr GF_sewer"
  by (simp add: house_canary_field_to_generic_getitem_def house_canary_field_to_generic_def)

lemma normalize_step_valid:
  "map_of house_canary_sewer_to_generic s = Some c \<Longrightarrow>
   normalize_items acc ((PStr ''sewer'', PStr s) # items) =
     normalize_items (dict_set acc (PStr ''sewer'') (PStr c)) items"
  using table_dom[of s c] by (auto simp: call_member table_get_str)

lemma normalize_step_invalid:
  "HouseCanarySewerPropertyDetails_call v = Inl e \<Longrightarrow>
   normalize_items acc ((PStr ''sewer'', v) # items) = Inl e"
  by simp

subsection \<open>Normalization of one sewer value\<close>

text \<open>
  Claim C1, as amended. A provider string that has an entry in
  \<open>house_canary_sewer_to_generic\<close> is normalized to exactly the mapped canonical value.
  A provider string without an entry is rejected by the field validator: normalization
  raises \<^verbatim>\<open>ValueError\<close>, and the \<open>existence_unknown\<close> default of the table lookup is
  not reached.
\<close>

theorem normalize_sewer_value:
  "(map_of house_canary_sewer_to_generic s = Some c \<longrightarrow>
      normalize_home_data [(PStr ''sewer'', PStr s)] = Inr [(PStr ''sewer'', PStr c)]) \<and>
   (map_of house_canary_sewer_to_generic s = None \<longrightarrow>
      normalize_home_data [(PStr ''sewer'', PStr s)] = Inl ValueError)"
proof (intro conjI impI)
  assume "map_of house_canary_sewer_to_generic s = Some c"
  then show "normalize_home_data [(PStr ''sewer'', PStr s)] = Inr [(PStr ''sewer'', PStr c)]"
    by (simp add: normalize_home_data_def normalize_step_valid del: normalize_items.simps(2))
next
  assume none: "map_of house_canary_sewer_to_generic s = None"
  have "HouseCanarySewerPropertyDetails_call (PStr s) = Inl ValueError"
  proof (rule ccontr)
    assume "HouseCanarySewerPropertyDetails_call (PStr s) \<noteq> Inl ValueError"
    then obtain m where "HouseCanarySewerPropertyDetails_call (PStr s) = Inr m"
      using call_cases[of "PStr s"] by blast
    then have "s = HouseCanarySewerPropertyDetails_value m" by (simp add: call_Inr_iff)
    with table_total[of m] none show False by simp
  qed
  then show "normalize_home_data [(PStr ''sewer'', PStr s)] = Inl ValueError"
    by (simp add: normalize_home_data_def normalize_step_invalid del: normalize_items.simps(2))
qed

theorem normalize_sewer_value_witness:
  "map_of house_canary_sewer_to_generic ''Septic'' = Some ''septic'' \<and>
   normalize_home_data [(PStr ''sewer'', PStr ''Septic'')] = Inr [(PStr ''sewer'', PStr ''septic'')] \<and>
   map_of house_canary_sewer_to_generic ''Unknown-Provider-Code'' = None \<and>
   normalize_home_data [(PStr ''sewer'', PStr ''Unknown-Provider-Code'')] = Inl ValueError"
  using normalize_sewer_value[of "''Septic''" "''septic''"]
        normalize_sewer_value[of "''Unknown-Provider-Code''"]
  by (simp add: house_canary_sewer_to_generic_def)

text \<open>
  Claim C1 as stated fails: the value \<^verbatim>\<open>"Unknown-Provider-Code"\<close> has no table entry, and
  normalizing it raises \<^verbatim>\<open>ValueError\<close> instead of giving \<open>sewer = existence_unknown\<close>.
\<close>

theorem unmapped_value_raises:
  "map_of house_canary_sewer_to_generic ''Unknown-Provider-Code'' = None \<and>
   normalize_home_data [(PStr ''sewer'', PStr ''Unknown-Provider-Code'')] = Inl ValueError \<and>
   normalize_home_data [(PStr ''sewer'', PStr ''Unknown-Provider-Code'')]
     \<noteq> Inr [(PStr ''sewer'', PStr (GenericSewerMappings_value G_existence_unknown))]"
  by (simp add: house_canary_sewer_to_generic_def normalize_home_data_def
        HouseCanarySewerPropertyDetails_call_def HouseCanarySewerPropertyDetails_members_def)

text \<open>
  Claim C3. Provider value \<^verbatim>\<open>"Septic"\<close> for \<^verbatim>\<open>sewer\<close> normalizes to \<open>sewer = septic\<close>
  and the constructed field \<open>has_septic\<close> is true; provider value \<^verbatim>\<open>"Yes"\<close> normalizes to
  \<open>sewer = type_unknown\<close> and \<open>has_septic\<close> is false.
\<close>

theorem septic_and_yes_scenarios:
  "normalize_home_data [(PStr ''sewer'', PStr ''Septic'')] = Inr [(PStr ''sewer'', PStr ''septic'')] \<and>
   build_constructed_fields [(PStr ''sewer'', PStr ''septic'')]
     = Inr [(PStr ''sewer'', PStr ''septic''), (PStr ''has_septic'', PBool True)] \<and>
   normalize_home_data [(PStr ''sewer'', PStr ''Yes'')] = Inr [(PStr ''sewer'', PStr ''type_unknown'')] \<and>
   build_constructed_fields [(PStr ''sewer'', PStr ''type_unknown'')]
     = Inr [(PStr ''sewer'', PStr ''type_unknown''), (PStr ''has_septic'', PBool False)]"
  by (simp add: normalize_home_data_def house_canary_sewer_to_generic_get_def
        house_canary_sewer_to_generic_def
        HouseCanarySewerPropertyDetails_call_def HouseCanarySewerPropertyDetails_members_def
        build_constructed_fields_def constructed_fields_def getattr_constructor_def has_septic_def)

subsection \<open>The pipeline\<close>

lemmas pipeline_eval =
  build_home_data_def fetch_home_data_def raise_for_status_def response_json_def save_to_file_def
  parse_home_data_def update_from_dict_def py_in_def fields_to_retrieve_def
  normalize_home_data_def HouseCanarySewerPropertyDetails_call_def
  HouseCanarySewerPropertyDetails_members_def
  house_canary_sewer_to_generic_get_def house_canary_sewer_to_generic_def
  build_constructed_fields_def constructed_fields_def getattr_constructor_def has_septic_def
  Let_def

text \<open>
  Claim C2, at the failing input. On a normalized mapping without the \<^verbatim>\<open>sewer\<close> key the
  constructor \<open>has_septic\<close> raises \<^verbatim>\<open>KeyError\<close>; the loop catches \<^verbatim>\<open>AttributeError\<close>
  only, so the error leaves \<open>build_constructed_fields\<close> and the field is not skipped. A
  payload whose \<^verbatim>\<open>result\<close> object has no \<^verbatim>\<open>sewer\<close> member brings the pipeline there.
\<close>

theorem missing_sewer_raises_KeyError:
  "build_constructed_fields [] = Inl (KeyError (PStr ''sewer'')) \<and>
   build_home_data
     \<lparr>expected_fields = [''has_septic''], address = Some ''1 Main St'', zip_code = Some ''02139'',
        data = None\<rparr>
     (\<lambda>a z. Returns (Response 200 (Some (PDict [(PStr ''property/details'',
        PDict [(PStr ''result'', PDict [(PStr ''property'', PDict [(PStr ''pool'', PBool True)])])])]))))
   = (Inl (KeyError (PStr ''sewer'')),
      \<lparr>expected_fields = [''has_septic''], address = Some ''1 Main St'', zip_code = Some ''02139'',
         data = None\<rparr>)"
  by (simp add: pipeline_eval)

lemma fields_getitem_Inr: "HouseCanaryFields_getitem k = Inr f \<Longrightarrow> k = PStr ''sewer''"
  by (auto simp: HouseCanaryFields_getitem_def split: if_splits)

lemma parse_keys:
  assumes "parse_home_data self p = Inr d" and "(k, v) \<in> set d"
  shows "k = PStr ''sewer''"
  using assms
  by (auto simp: parse_home_data_def py_in_iff fields_to_retrieve_def split: sum.splits)

lemma normalize_items_shape:
  "normalize_items acc d = Inr n \<Longrightarrow> acc = [] \<or> (\<exists>x. acc = [(PStr ''sewer'', x)]) \<Longrightarrow>
   (d = [] \<and> n = acc) \<or> (\<exists>x. n = [(PStr ''sewer'', x)])"
proof (induction d arbitrary: acc)
  case Nil
  then show ?case by simp
next
  case (Cons kv items)
  obtain k v where kv: "kv = (k, v)" by (cases kv)
  from Cons.prems(1) kv obtain f where f: "HouseCanaryFields_getitem k = Inr f"
    by (auto split: sum.splits)
  then have k: "k = PStr ''sewer''" by (rule fields_getitem_Inr)
  from Cons.prems(1) kv k obtain c where
    step: "normalize_items (dict_set acc (PStr ''sewer'') (PStr c)) items = Inr n"
    by (auto split: sum.splits)
  from Cons.prems(2) have acc': "\<exists>x. dict_set acc (PStr ''sewer'') (PStr c) = [(PStr ''sewer'', x)]"
    by auto
  then have "(items = [] \<and> n = dict_set acc (PStr ''sewer'') (PStr c)) \<or> (\<exists>x. n = [(PStr ''sewer'', x)])"
    using Cons.IH[OF step] by blast
  with acc' show ?case by auto
qed

lemma normalize_home_data_shape:
  "normalize_home_data d = Inr n \<Longrightarrow> (d = [] \<and> n = []) \<or> (\<exists>x. n = [(PStr ''sewer'', x)])"
  unfolding normalize_home_data_def using normalize_items_shape[of "[]" d n] by simp

lemma build_constructed_fields_sewer:
  "build_constructed_fields [(PStr ''sewer'', x)] =
     Inr [(PStr ''sewer'', x), (PStr ''has_septic'', PBool (x = PStr ''septic''))]"
  by (simp add: build_constructed_fields_def constructed_fields_def getattr_constructor_def has_septic_def)

lemma build_constructed_fields_empty:
  "build_constructed_fields [] = Inl (KeyError (PStr ''sewer''))"
  by (simp add: build_constructed_fields_def constructed_fields_def getattr_constructor_def has_septic_def)

lemma build_home_data_Inr:
  assumes "build_home_data self get = (Inr m, self')"
  shows "\<exists>x b. m = filter (\<lambda>(key, val). py_in key (expected_fields self))
                     [(PStr ''sewer'', x), (PStr ''has_septic'', b)]"
proof -
  from assms obtain p d n w where
    n: "normalize_home_data d = Inr n" and
    w: "build_constructed_fields n = Inr w" and
    m: "m = filter (\<lambda>(key, val). py_in key (expected_fields self)) w"
    by (auto simp: build_home_data_def Let_def split: sum.splits)
  from normalize_home_data_shape[OF n] w obtain x where "n = [(PStr ''sewer'', x)]"
    by (auto simp: build_constructed_fields_empty)
  with w have "w = [(PStr ''sewer'', x), (PStr ''has_septic'', PBool (x = PStr ''septic''))]"
    by (simp add: build_constructed_fields_sewer)
  with m show ?thesis by blast
qed

text \<open>
  A mapping that \<open>build_home_data\<close> returns has both \<^verbatim>\<open>sewer\<close> and \<open>has_septic\<close>
  before the projection, so its keys are the requested fields among the generic names of
  \<open>house_canary_field_to_generic\<close> and the constructed fields.
\<close>

lemma returned_mapping_keys:
  assumes "build_home_data self get = (Inr m, self')"
  shows "fst ` set m =
           PStr ` (set (expected_fields self) \<inter>
                   (set (map (\<lambda>(n, g). GenericFieldsToMappings_name g) house_canary_field_to_generic)
                    \<union> set constructed_fields))
         \<and> (expected_fields self = [] \<longrightarrow> m = [])"
proof -
  from build_home_data_Inr[OF assms] obtain x b where
    m: "m = filter (\<lambda>(key, val). py_in key (expected_fields self))
              [(PStr ''sewer'', x), (PStr ''has_septic'', b)]" by blast
  show ?thesis
    unfolding m
    by (auto simp: py_in_iff house_canary_field_to_generic_def constructed_fields_def)
qed

text \<open>
  Claim C4, at the failing input. With no field requested and a provider payload that has
  no \<^verbatim>\<open>sewer\<close> member, \<open>build_home_data\<close> returns no mapping at all: \<open>has_septic\<close> raises
  \<^verbatim>\<open>KeyError\<close> before the projection is reached, and nothing is stored. With the same
  request and a payload that has a \<^verbatim>\<open>sewer\<close> member the result is the empty mapping.
\<close>

theorem empty_request_raises_without_sewer:
  "build_home_data
     \<lparr>expected_fields = [], address = Some ''1 Main St'', zip_code = Some ''02139'', data = None\<rparr>
     (\<lambda>a z. Returns (Response 200 (Some (PDict [(PStr ''property/details'',
        PDict [(PStr ''result'', PDict [(PStr ''property'', PDict [(PStr ''pool'', PBool True)])])])]))))
   = (Inl (KeyError (PStr ''sewer'')),
      \<lparr>expected_fields = [], address = Some ''1 Main St'', zip_code = Some ''02139'', data = None\<rparr>) \<and>
   build_home_data
     \<lparr>expected_fields = [], address = Some ''1 Main St'', zip_code = Some ''02139'', data = None\<rparr>
     (\<lambda>a z. Returns (Response 200 (Some (PDict [(PStr ''property/details'',
        PDict [(PStr ''result'', PDict [(PStr ''property'',
          PDict [(PStr ''sewer'', PStr ''Septic''), (PStr ''pool'', PBool True)])])])]))))
   = (Inr [],
      \<lparr>expected_fields = [], address = Some ''1 Main St'', zip_code = Some ''02139'', data = Some []\<rparr>)"
  by (simp add: pipeline_eval)

text \<open>
  Claim C7. An exception of the fetch stage (raised by \<^verbatim>\<open>requests.get\<close>, or by
  \<^verbatim>\<open>raise_for_status\<close> for a status from 400 to 599 such as 500) leaves
  \<open>build_home_data\<close> unchanged: no mapping is returned and the instance, with its stored
  \<open>data\<close>, is as before. The spec calls these exceptions \<^verbatim>\<open>FetchError\<close>.
\<close>

theorem fetch_failure_aborts:
  "(fetch_home_data self get = Inl e \<longrightarrow> build_home_data self get = (Inl e, self)) \<and>
   (get (address self) (zip_code self) = Raises e \<longrightarrow> fetch_home_data self get = Inl e) \<and>
   (get (address self) (zip_code self) = Returns r \<and> 400 \<le> status_code r \<and> status_code r < 600 \<longrightarrow>
      fetch_home_data self get = Inl (HTTPError (status_code r)))"
  by (simp add: build_home_data_def fetch_home_data_def raise_for_status_def)

theorem fetch_failure_aborts_witness:
  "fetch_home_data
     \<lparr>expected_fields = [''sewer''], address = Some ''1 Main St'', zip_code = Some ''02139'',
        data = Some [(PStr ''sewer'', PStr ''storm'')]\<rparr>
     (\<lambda>a z. Returns (Response 500 None)) = Inl (HTTPError 500) \<and>
   build_home_data
     \<lparr>expected_fields = [''sewer''], address = Some ''1 Main St'', zip_code = Some ''02139'',
        data = Some [(PStr ''sewer'', PStr ''storm'')]\<rparr>
     (\<lambda>a z. Returns (Response 500 None))
   = (Inl (HTTPError 500),
      \<lparr>expected_fields = [''sewer''], address = Some ''1 Main St'', zip_code = Some ''02139'',
        data = Some [(PStr ''sewer'', PStr ''storm'')]\<rparr>) \<and>
   build_home_data
     \<lparr>expected_fields = [''sewer''], address = Some ''1 Main St'', zip_code = Some ''02139'',
        data = None\<rparr>
     (\<lambda>a z. Raises Timeout)
   = (Inl Timeout,
      \<lparr>expected_fields = [''sewer''], address = Some ''1 Main St'', zip_code = Some ''02139'',
        data = None\<rparr>)"
  using fetch_failure_aborts[of
      "\<lparr>expected_fields = [''sewer''], address = Some ''1 Main St'', zip_code = Some ''02139'',
        data = Some [(PStr ''sewer'', PStr ''storm'')]\<rparr>"
      "\<lambda>a z. Returns (Response 500 None)" "HTTPError 500" "Response 500 None"]
    fetch_failure_aborts[of
      "\<lparr>expected_fields = [''sewer''], address = Some ''1 Main St'', zip_code = Some ''02139'',
        data = None\<rparr>"
      "\<lambda>a z. Raises Timeout" Timeout]
  by simp

subsection \<open>Validation\<close>

text \<open>
  Claim C9. Every member of \<open>HouseCanarySewerPropertyDetails\<close> has an entry in
  \<open>house_canary_sewer_to_generic\<close>; so for a value that passes validation the table lookup
  returns the entry, whatever the default is.
\<close>

theorem validated_value_has_table_entry:
  "(\<exists>c. map_of house_canary_sewer_to_generic (HouseCanarySewerPropertyDetails_value m) = Some c) \<and>
   (HouseCanarySewerPropertyDetails_call v = Inr m \<longrightarrow>
      (\<exists>c. map_of house_canary_sewer_to_generic (HouseCanarySewerPropertyDetails_value m) = Some c \<and>
           (\<forall>dflt. house_canary_sewer_to_generic_get v dflt = Inr c)))"
proof (intro conjI impI)
  show "\<exists>c. map_of house_canary_sewer_to_generic (HouseCanarySewerPropertyDetails_value m) = Some c"
    by (rule table_total)
next
  assume "HouseCanarySewerPropertyDetails_call v = Inr m"
  then have v: "v = PStr (HouseCanarySewerPropertyDetails_value m)" by (simp add: call_Inr_iff)
  from table_total[of m] obtain c where
    c: "map_of house_canary_sewer_to_generic (HouseCanarySewerPropertyDetails_value m) = Some c" ..
  then have "\<forall>dflt. house_canary_sewer_to_generic_get v dflt = Inr c"
    by (simp add: v table_get_str)
  with c show "\<exists>c. map_of house_canary_sewer_to_generic (HouseCanarySewerPropertyDetails_value m) = Some c \<and>
           (\<forall>dflt. house_canary_sewer_to_generic_get v dflt = Inr c)" by blast
qed

theorem validated_value_has_table_entry_witness:
  "HouseCanarySewerPropertyDetails_call (PStr ''Yes'') = Inr HC_Yes \<and>
   map_of house_canary_sewer_to_generic (HouseCanarySewerPropertyDetails_value HC_Yes) = Some ''type_unknown'' \<and>
   house_canary_sewer_to_generic_get (PStr ''Yes'') (GenericSewerMappings_value G_existence_unknown)
     = Inr ''type_unknown''"
  using validated_value_has_table_entry[of HC_Yes "PStr ''Yes''"]
  by (simp add: HouseCanarySewerPropertyDetails_call_def HouseCanarySewerPropertyDetails_members_def
        house_canary_sewer_to_generic_def house_canary_sewer_to_generic_get_def)

text \<open>
  Claim C5. A sewer value outside the values of the \<open>HouseCanarySewerPropertyDetails\<close>
  members makes normalization raise the enum's \<^verbatim>\<open>ValueError\<close> (the spec's
  \<^verbatim>\<open>ValueValidationError\<close>); no table lookup is involved, and \<open>build_home_data\<close>
  passes the error on without storing anything.
\<close>

theorem value_outside_universe_raises:
  assumes "v \<notin> PStr ` set (map HouseCanarySewerPropertyDetails_value HouseCanarySewerPropertyDetails_members)"
  shows "normalize_home_data [(PStr ''sewer'', v)] = Inl ValueError \<and>
         (fetch_home_data self get = Inr p \<and> parse_home_data self p = Inr [(PStr ''sewer'', v)] \<longrightarrow>
            build_home_data self get = (Inl ValueError, self))"
proof -
  have n: "normalize_home_data [(PStr ''sewer'', v)] = Inl ValueError"
    using call_outside[OF assms]
    by (simp add: normalize_home_data_def normalize_step_invalid del: normalize_items.simps(2))
  then show ?thesis by (simp add: build_home_data_def Let_def)
qed

theorem value_outside_universe_raises_witness:
  "PNone \<notin> PStr ` set (map HouseCanarySewerPropertyDetails_value HouseCanarySewerPropertyDetails_members) \<and>
   normalize_home_data [(PStr ''sewer'', PNone)] = Inl ValueError \<and>
   build_home_data
     \<lparr>expected_fields = [''sewer''], address = Some ''1 Main St'', zip_code = Some ''02139'', data = None\<rparr>
     (\<lambda>a z. Returns (Response 200 (Some (PDict [(PStr ''property/details'',
        PDict [(PStr ''result'', PDict [(PStr ''property'', PDict [(PStr ''sewer'', PNone)])])])]))))
   = (Inl ValueError,
      \<lparr>expected_fields = [''sewer''], address = Some ''1 Main St'', zip_code = Some ''02139'', data = None\<rparr>)"
proof -
  let ?self = "\<lparr>expected_fields = [''sewer''], address = Some ''1 Main St'', zip_code = Some ''02139'', data = None\<rparr>"
  let ?p = "PDict [(PStr ''property/details'',
        PDict [(PStr ''result'', PDict [(PStr ''property'', PDict [(PStr ''sewer'', PNone)])])])]"
  let ?get = "\<lambda>(a::string option) (z::string option). Returns (Response 200 (Some ?p))"
  have u: "PNone \<notin> PStr ` set (map HouseCanarySewerPropertyDetails_value HouseCanarySewerPropertyDetails_members)"
    by auto
  have f: "fetch_home_data ?self ?get = Inr ?p"
    by (simp add: fetch_home_data_def raise_for_status_def response_json_def)
  have q: "parse_home_data ?self ?p = Inr [(PStr ''sewer'', PNone)]"
    by (simp add: parse_home_data_def update_from_dict_def py_in_def fields_to_retrieve_def)
  from value_outside_universe_raises[OF u, of ?self ?get ?p] f q u show ?thesis by simp
qed

subsection \<open>Dictionaries\<close>

lemma key_eq_refl [simp]: "key_eq a a"
  by (simp add: key_eq_def split: option.splits)

lemma key_eq_sym: "key_eq a b \<Longrightarrow> key_eq b a"
  by (auto simp: key_eq_def split: option.splits)

lemma key_eq_trans: "key_eq a b \<Longrightarrow> key_eq b c \<Longrightarrow> key_eq a c"
  by (auto simp: key_eq_def split: option.splits)

lemma key_eq_right_cong: "key_eq k k' \<Longrightarrow> key_eq a k = key_eq a k'"
  by (auto simp: key_eq_def split: option.splits)

lemma key_eq_left_cong: "key_eq k k' \<Longrightarrow> key_eq k a = key_eq k' a"
  by (auto simp: key_eq_def split: option.splits)

lemma dict_lookup_key_eq: "key_eq k k' \<Longrightarrow> dict_lookup d k = dict_lookup d k'"
  by (induction d) (auto simp: key_eq_right_cong)

lemma dict_lookup_dict_set:
  "dict_lookup (dict_set d k v) k' = (if key_eq k k' then Some v else dict_lookup d k')"
proof (induction d)
  case Nil
  then show ?case by simp
next
  case (Cons kv d)
  obtain a b where kv: "kv = (a, b)" by (cases kv)
  show ?case
  proof (cases "key_eq a k")
    case True
    then have "key_eq a k' = key_eq k k'" by (rule key_eq_left_cong)
    with True show ?thesis unfolding kv by simp
  next
    case False
    have "key_eq k k' \<Longrightarrow> \<not> key_eq a k'"
      using False key_eq_right_cong[of k k' a] by simp
    with False Cons.IH show ?thesis unfolding kv by auto
  qed
qed

lemma update_from_dict_Cons:
  "update_from_dict d ((k, v) # other) = update_from_dict (dict_set d k v) other"
  by (simp add: update_from_dict_def)

lemma update_from_dict_Nil [simp]: "update_from_dict d [] = d"
  by (simp add: update_from_dict_def)

lemma lookup_update_absent:
  "dict_lookup other k = None \<Longrightarrow> dict_lookup (update_from_dict d other) k = dict_lookup d k"
proof (induction other arbitrary: d)
  case Nil
  then show ?case by simp
next
  case (Cons kv other)
  obtain k' v' where kv: "kv = (k', v')" by (cases kv)
  from Cons.prems kv have ne: "\<not> key_eq k' k" and rest: "dict_lookup other k = None"
    by (auto split: if_splits)
  show ?case unfolding kv update_from_dict_Cons
    using Cons.IH[OF rest, of "dict_set d k' v'"] ne by (simp add: dict_lookup_dict_set)
qed

lemma lookup_update_present:
  "dict_ok other \<Longrightarrow> dict_lookup other k = Some v \<Longrightarrow>
   dict_lookup (update_from_dict d other) k = Some v"
proof (induction other arbitrary: d)
  case Nil
  then show ?case by simp
next
  case (Cons kv other)
  obtain k' v' where kv: "kv = (k', v')" by (cases kv)
  from Cons.prems(1) kv have fresh: "dict_lookup other k' = None" and ok: "dict_ok other"
    by auto
  show ?case
  proof (cases "key_eq k' k")
    case True
    with Cons.prems(2) kv have v: "v' = v" by simp
    from True fresh have "dict_lookup other k = None"
      using dict_lookup_key_eq[of k' k other] by simp
    then have "dict_lookup (update_from_dict (dict_set d k' v') other) k
                 = dict_lookup (dict_set d k' v') k"
      by (rule lookup_update_absent)
    with True v show ?thesis unfolding kv update_from_dict_Cons
      by (simp add: dict_lookup_dict_set)
  next
    case False
    with Cons.prems(2) kv have "dict_lookup other k = Some v" by simp
    from Cons.IH[OF ok this] show ?thesis unfolding kv update_from_dict_Cons .
  qed
qed

lemma py_in_key_eq: "key_eq k' k \<Longrightarrow> py_in k' names = py_in k names"
  by (auto simp: py_in_iff)

lemma lookup_filter_py_in:
  "dict_lookup (filter (\<lambda>(key, val). py_in key names) d) k =
     (if py_in k names then dict_lookup d k else None)"
proof (induction d)
  case Nil
  then show ?case by simp
next
  case (Cons kv d)
  obtain k' v' where kv: "kv = (k', v')" by (cases kv)
  show ?case unfolding kv using Cons.IH py_in_key_eq[of k' k names]
    by auto
qed

lemma filter_py_in_all:
  "list_all (\<lambda>(key, val). py_in key names) (filter (\<lambda>(key, val). py_in key names) d)"
  by (induction d) auto

subsection \<open>Parsing\<close>

text \<open>
  Claim C10. When the payload's \<^verbatim>\<open>property\<close> object and its \<^verbatim>\<open>assessment\<close> object both
  define a key, the parsed mapping holds the value of the \<^verbatim>\<open>assessment\<close> object for it,
  provided the key is one of \<open>fields_to_retrieve\<close>; any other key is not in the parsed
  mapping at all. The \<^verbatim>\<open>assessment\<close> object is a dictionary, so no key occurs twice in
  it (\<open>dict_ok\<close>).
\<close>

theorem assessment_overrides_property:
  assumes "getitem home_data ''property/details'' = Inr details"
    and "getitem details ''result'' = Inr (PDict result)"
    and "dict_lookup result (PStr ''property'') = Some (PDict property_data)"
    and "dict_lookup result (PStr ''assessment'') = Some (PDict property_assessment)"
    and "dict_ok property_assessment"
    and "dict_lookup property_data k = Some v1"
    and "dict_lookup property_assessment k = Some v2"
  shows "\<exists>d. parse_home_data self home_data = Inr d \<and>
             dict_lookup d k = (if py_in k fields_to_retrieve then Some v2 else None)"
proof -
  let ?merged = "update_from_dict property_data property_assessment"
  have p: "parse_home_data self home_data
             = Inr (filter (\<lambda>(key, val). py_in key fields_to_retrieve) ?merged)"
    using assms(1-4) by (simp add: parse_home_data_def)
  have "dict_lookup ?merged k = Some v2"
    using assms(5,7) by (rule lookup_update_present)
  then have "dict_lookup (filter (\<lambda>(key, val). py_in key fields_to_retrieve) ?merged) k
               = (if py_in k fields_to_retrieve then Some v2 else None)"
    by (simp add: lookup_filter_py_in)
  with p show ?thesis by simp
qed

theorem assessment_overrides_property_witness:
  "parse_home_data
     \<lparr>expected_fields = [''sewer''], address = Some ''1 Main St'', zip_code = Some ''02139'', data = None\<rparr>
     (PDict [(PStr ''property/details'', PDict [(PStr ''result'', PDict
        [(PStr ''property'', PDict [(PStr ''sewer'', PStr ''Municipal'')]),
         (PStr ''assessment'', PDict [(PStr ''apn'', PStr ''12''), (PStr ''sewer'', PStr ''Septic'')])])])])
   = Inr [(PStr ''sewer'', PStr ''Septic'')] \<and>
   dict_ok [(PStr ''apn'', PStr ''12''), (PStr ''sewer'', PStr ''Septic'')] \<and>
   dict_lookup [(PStr ''sewer'', PStr ''Municipal'')] (PStr ''sewer'') = Some (PStr ''Municipal'') \<and>
   dict_lookup [(PStr ''apn'', PStr ''12''), (PStr ''sewer'', PStr ''Septic'')] (PStr ''sewer'')
     = Some (PStr ''Septic'')"
proof -
  let ?self = "\<lparr>expected_fields = [''sewer''], address = Some ''1 Main St'', zip_code = Some ''02139'', data = None\<rparr>"
  let ?pd = "[(PStr ''sewer'', PStr ''Municipal'')]"
  let ?ad = "[(PStr ''apn'', PStr ''12''), (PStr ''sewer'', PStr ''Septic'')]"
  let ?res = "[(PStr ''property'', PDict ?pd), (PStr ''assessment'', PDict ?ad)]"
  let ?det = "PDict [(PStr ''result'', PDict ?res)]"
  let ?p = "PDict [(PStr ''property/details'', ?det)]"
  have "\<exists>d. parse_home_data ?self ?p = Inr d \<and>
          dict_lookup d (PStr ''sewer'') = (if py_in (PStr ''sewer'') fields_to_retrieve then Some (PStr ''Septic'') else None)"
    by (rule assessment_overrides_property[where details = ?det and result = ?res
          and property_data = ?pd and property_assessment = ?ad and ?v1.0 = "PStr ''Municipal''"])
       simp_all
  then show ?thesis
    by (simp add: parse_home_data_def update_from_dict_def py_in_def fields_to_retrieve_def)
qed

text \<open>
  Claim C8, as amended. The parsed mapping holds only provider fields of
  \<open>fields_to_retrieve\<close>, and it does not depend on the requested fields of the instance:
  the requested fields are applied by the last step of \<open>build_home_data\<close> only.
\<close>

theorem parse_keeps_supported_fields:
  "(parse_home_data self home_data = Inr d \<longrightarrow>
      list_all (\<lambda>(key, val). py_in key fields_to_retrieve) d) \<and>
   parse_home_data (self\<lparr>expected_fields := requested\<rparr>) home_data = parse_home_data self home_data"
  by (auto simp: parse_home_data_def filter_py_in_all split: sum.splits)

theorem parse_keeps_supported_fields_witness:
  "parse_home_data
     \<lparr>expected_fields = [''has_septic''], address = Some ''1 Main St'', zip_code = Some ''02139'', data = None\<rparr>
     (PDict [(PStr ''property/details'', PDict [(PStr ''result'', PDict
        [(PStr ''property'', PDict [(PStr ''pool'', PBool True), (PStr ''sewer'', PStr ''Storm'')])])])])
   = Inr [(PStr ''sewer'', PStr ''Storm'')] \<and>
   list_all (\<lambda>(key, val). py_in key fields_to_retrieve) [(PStr ''sewer'', PStr ''Storm'')]"
proof -
  let ?self = "\<lparr>expected_fields = [''has_septic''], address = Some ''1 Main St'', zip_code = Some ''02139'', data = None\<rparr>"
  let ?p = "PDict [(PStr ''property/details'', PDict [(PStr ''result'', PDict
        [(PStr ''property'', PDict [(PStr ''pool'', PBool True), (PStr ''sewer'', PStr ''Storm'')])])])]"
  have run: "parse_home_data ?self ?p = Inr [(PStr ''sewer'', PStr ''Storm'')]"
    by (simp add: parse_home_data_def update_from_dict_def py_in_def fields_to_retrieve_def)
  from parse_keeps_supported_fields[of ?self ?p "[(PStr ''sewer'', PStr ''Storm'')]"] run
  show ?thesis by simp
qed

text \<open>
  Claim C8 as stated fails: with no field requested, the supported field \<^verbatim>\<open>sewer\<close> is
  still in the parsed mapping.
\<close>

theorem unrequested_field_is_parsed:
  "\<not> py_in (PStr ''sewer'')
       (expected_fields \<lparr>expected_fields = [], address = Some ''1 Main St'', zip_code = Some ''02139'', data = None\<rparr>) \<and>
   parse_home_data
     \<lparr>expected_fields = [], address = Some ''1 Main St'', zip_code = Some ''02139'', data = None\<rparr>
     (PDict [(PStr ''property/details'', PDict [(PStr ''result'', PDict
        [(PStr ''property'', PDict [(PStr ''sewer'', PStr ''Septic'')])])])])
   = Inr [(PStr ''sewer'', PStr ''Septic'')]"
  by (simp add: parse_home_data_def update_from_dict_def py_in_def fields_to_retrieve_def)

lemma missing_container_parse:
  assumes "missing_container home_data"
  shows "parse_home_data self home_data = Inl (KeyError (PStr ''property/details'')) \<or>
         parse_home_data self home_data = Inl (KeyError (PStr ''result'')) \<or>
         parse_home_data self home_data = Inl TypeError"
proof (cases home_data)
  case (PDict outer)
  show ?thesis
  proof (cases "dict_lookup outer (PStr ''property/details'')")
    case None
    with PDict show ?thesis by (simp add: parse_home_data_def)
  next
    case (Some details)
    show ?thesis
    proof (cases details)
      case inner: (PDict det)
      with assms PDict Some have "dict_lookup det (PStr ''result'') = None"
        by (simp add: missing_container_def)
      with PDict Some inner show ?thesis by (simp add: parse_home_data_def)
    qed (use PDict Some in \<open>simp_all add: parse_home_data_def\<close>)
  qed
qed (simp_all add: parse_home_data_def)

lemma well_formed_parse:
  assumes "well_formed_payload home_data"
  shows "\<exists>d. parse_home_data self home_data = Inr d \<and>
             list_all (\<lambda>(key, val). py_in key fields_to_retrieve) d"
proof -
  from assms obtain outer where o: "home_data = PDict outer"
    by (cases home_data) (simp_all add: well_formed_payload_def)
  from assms o obtain details where
    d: "dict_lookup outer (PStr ''property/details'') = Some details"
    by (cases "dict_lookup outer (PStr ''property/details'')")
       (simp_all add: well_formed_payload_def)
  from assms o d obtain det where det: "details = PDict det"
    by (cases details) (simp_all add: well_formed_payload_def)
  from assms o d det obtain result where
    r: "dict_lookup det (PStr ''result'') = Some result"
    by (cases "dict_lookup det (PStr ''result'')") (simp_all add: well_formed_payload_def)
  from assms o d det r obtain res where res: "result = PDict res"
    by (cases result) (simp_all add: well_formed_payload_def)
  from assms o d det r res have
    s: "home_data = PDict outer" "dict_lookup outer (PStr ''property/details'') = Some (PDict det)"
       "dict_lookup det (PStr ''result'') = Some (PDict res)"
       "object_or_absent (dict_lookup res (PStr ''property''))"
       "object_or_absent (dict_lookup res (PStr ''assessment''))"
    by (simp_all add: well_formed_payload_def)
  from s(4) obtain pd where pd: "py_get (PDict res) ''property'' (PDict []) = Inr (PDict pd)"
    by (cases "dict_lookup res (PStr ''property'')" rule: object_or_absent.cases) auto
  from s(5) obtain ad where ad: "py_get (PDict res) ''assessment'' (PDict []) = Inr (PDict ad)"
    by (cases "dict_lookup res (PStr ''assessment'')" rule: object_or_absent.cases) auto
  have "parse_home_data self home_data
          = Inr (filter (\<lambda>(key, val). py_in key fields_to_retrieve) (update_from_dict pd ad))"
    unfolding parse_home_data_def using s(1-3) pd ad by simp
  then show ?thesis by (simp add: filter_py_in_all)
qed

text \<open>
  Claim C6. A payload that misses the structural container makes \<open>parse_home_data\<close> fail,
  with the \<^verbatim>\<open>KeyError\<close> of the missing member or the \<^verbatim>\<open>TypeError\<close> of subscripting a
  value that is no object (the spec's \<^verbatim>\<open>SchemaDriftError\<close>). On a well-formed payload
  it returns a mapping, and every key outside \<open>fields_to_retrieve\<close> is dropped.
\<close>

theorem parse_fails_or_drops:
  "(missing_container home_data \<longrightarrow>
      parse_home_data self home_data = Inl (KeyError (PStr ''property/details'')) \<or>
      parse_home_data self home_data = Inl (KeyError (PStr ''result'')) \<or>
      parse_home_data self home_data = Inl TypeError) \<and>
   (well_formed_payload home_data \<longrightarrow>
      (\<exists>d. parse_home_data self home_data = Inr d \<and>
           list_all (\<lambda>(key, val). py_in key fields_to_retrieve) d))"
  using missing_container_parse well_formed_parse by blast

theorem parse_fails_or_drops_witness:
  "missing_container (PDict [(PStr ''status'', PStr ''error'')]) \<and>
   parse_home_data
     \<lparr>expected_fields = [''sewer''], address = Some ''1 Main St'', zip_code = Some ''02139'', data = None\<rparr>
     (PDict [(PStr ''status'', PStr ''error'')])
   = Inl (KeyError (PStr ''property/details'')) \<and>
   well_formed_payload
     (PDict [(PStr ''property/details'', PDict [(PStr ''api_code'', PInt 0), (PStr ''result'', PDict
        [(PStr ''property'', PDict [(PStr ''pool'', PBool True), (PStr ''sewer'', PStr ''Septic'')]),
         (PStr ''owner'', PNone)])])]) \<and>
   parse_home_data
     \<lparr>expected_fields = [''sewer''], address = Some ''1 Main St'', zip_code = Some ''02139'', data = None\<rparr>
     (PDict [(PStr ''property/details'', PDict [(PStr ''api_code'', PInt 0), (PStr ''result'', PDict
        [(PStr ''property'', PDict [(PStr ''pool'', PBool True), (PStr ''sewer'', PStr ''Septic'')]),
         (PStr ''owner'', PNone)])])])
   = Inr [(PStr ''sewer'', PStr ''Septic'')]"
  using parse_fails_or_drops[of "PDict [(PStr ''status'', PStr ''error'')]"
      "\<lparr>expected_fields = [''sewer''], address = Some ''1 Main St'', zip_code = Some ''02139'', data = None\<rparr>"]
    parse_fails_or_drops[of
      "PDict [(PStr ''property/details'', PDict [(PStr ''api_code'', PInt 0), (PStr ''result'', PDict
        [(PStr ''property'', PDict [(PStr ''pool'', PBool True), (PStr ''sewer'', PStr ''Septic'')]),
         (PStr ''owner'', PNone)])])]"
      "\<lparr>expected_fields = [''sewer''], address = Some ''1 Main St'', zip_code = Some ''02139'', data = None\<rparr>"]
  by (simp add: missing_container_def well_formed_payload_def parse_home_data_def
        update_from_dict_def py_in_def fields_to_retrieve_def)

end
